theory Spec2Isabelle
  imports Main
begin

section \<open>The adventure game server of \<^verbatim>\<open>server.py\<close>\<close>

text \<open>
  The class \<^verbatim>\<open>Server\<close> is embedded by explicit state passing: every method
  that assigns to an attribute of \<^verbatim>\<open>self\<close> takes the server record and
  returns the updated one.

  A Python \<^verbatim>\<open>str\<close> is a \<^typ>\<open>string\<close>; a \<^typ>\<open>char\<close> stands for a
  code point below 256. The transport model covers ASCII traffic, for which
  \<^verbatim>\<open>encode()\<close> and \<^verbatim>\<open>decode()\<close> are the identity, so a byte string
  is a \<^typ>\<open>string\<close> too. Exceptions raised inside the socket library are not
  part of the model.
\<close>

subsection \<open>The string methods the server calls\<close>

text \<open>
  \<^verbatim>\<open>str.lower()\<close>: the upper-case letters below code point 256 are
  \<^verbatim>\<open>A\<close>..\<^verbatim>\<open>Z\<close> (65..90) and 192..222 without the multiplication sign 215;
  each is 32 below its lower-case letter, and 32 is the digit of weight \<open>2^5\<close>,
  which is clear in all of them.
\<close>

definition is_upper :: "char \<Rightarrow> bool" where
  "is_upper c =
     (let n = (of_char c :: nat)
      in (65 \<le> n \<and> n \<le> 90) \<or> (192 \<le> n \<and> n \<le> 222 \<and> n \<noteq> 215))"

definition lower_char :: "char \<Rightarrow> char" where
  "lower_char c =
     (if is_upper c
      then Char (digit0 c) (digit1 c) (digit2 c) (digit3 c) (digit4 c) True (digit6 c) (digit7 c)
      else c)"

definition lower :: "string \<Rightarrow> string" where
  "lower s = map lower_char s"

text \<open>
  \<^verbatim>\<open>str.strip()\<close> removes the white space at both ends. Below code point 256
  the white space characters of Python are 9..13, 28..32, 133 and 160.
\<close>

definition is_space :: "char \<Rightarrow> bool" where
  "is_space c =
     (let n = (of_char c :: nat)
      in (9 \<le> n \<and> n \<le> 13) \<or> (28 \<le> n \<and> n \<le> 32) \<or> n = 133 \<or> n = 160)"

definition strip :: "string \<Rightarrow> string" where
  "strip s = rev (dropWhile is_space (rev (dropWhile is_space s)))"

text \<open>
  \<^verbatim>\<open>s.split(sep)\<close> for a separator of one character: the string is cut at
  every occurrence of the separator, empty pieces are kept, and the result
  has one piece more than there are separators (so it is never empty).
\<close>

fun split_str :: "char \<Rightarrow> string \<Rightarrow> string list" where
  "split_str sep [] = [[]]"
| "split_str sep (c # cs) =
     (if c = sep then [] # split_str sep cs
      else (case split_str sep cs of
              [] \<Rightarrow> [[c]]
            | w # ws \<Rightarrow> (c # w) # ws))"

text \<open>\<^verbatim>\<open>sep.join(pieces)\<close>.\<close>

fun join_str :: "string \<Rightarrow> string list \<Rightarrow> string" where
  "join_str sep [] = []"
| "join_str sep [w] = w"
| "join_str sep (w # v # ws) = w @ sep @ join_str sep (v # ws)"

text \<open>\<^verbatim>\<open>s.startswith(p)\<close>.\<close>

definition startswith :: "string \<Rightarrow> string \<Rightarrow> bool" where
  "startswith s p = (take (length p) s = p)"

subsection \<open>The state of a server\<close>

text \<open>
  \<^verbatim>\<open>self.client_connection\<close> is the socket returned by \<^verbatim>\<open>accept()\<close>. Its
  state is what the peer will still deliver, as the list of the segments in
  which the bytes arrive (when the list is exhausted the peer has closed the
  stream), the payloads handed to \<^verbatim>\<open>sendall\<close> so far, and whether
  \<^verbatim>\<open>close()\<close> has been called.
\<close>

record connection =
  incoming :: "string list"
  sent :: "string list"
  closed :: bool

text \<open>\<^verbatim>\<open>self.socket\<close>, the listening socket, is open or closed.\<close>

datatype listener = Listening | Closed

text \<open>
  The attributes set by \<^verbatim>\<open>__init__\<close>. The record describes a server from
  \<^verbatim>\<open>connect()\<close> on, when the two sockets exist.
\<close>

record server =
  input_buffer :: string
  output_buffer :: string
  finished :: bool
  socket :: listener
  client_connection :: connection
  port :: int
  room :: int

text \<open>
  The attribute \<^verbatim>\<open>self.done\<close> is the field \<^const>\<open>finished\<close>, since
  \<^verbatim>\<open>done\<close> is a reserved word of the proof language.
\<close>

definition game_name :: string where
  \<open>game_name = ''Explore the Andromeda Timecraft (ATC) Serendipity''\<close>

text \<open>
  \<^verbatim>\<open>__init__\<close> followed by \<^verbatim>\<open>connect()\<close>: the attributes as
  \<^verbatim>\<open>__init__\<close> sets them, the listening socket open, and the accepted
  connection, which will deliver the segments \<open>peer\<close>.
\<close>

definition connect :: "int \<Rightarrow> string list \<Rightarrow> server" where
  "connect p peer =
     \<lparr>input_buffer = [], output_buffer = [], finished = False, socket = Listening,
      client_connection = \<lparr>incoming = peer, sent = [], closed = False\<rparr>,
      port = p, room = 0\<rparr>"

subsection \<open>Room descriptions\<close>

definition craft_plaque :: string where
  \<open>craft_plaque =
     ''\<newline>\<newline>"ATC Serendipity (KTIME01)'' @
     ''\<newline>\<newline>'The universe, in its infinite perfection, is '' @
     ''merely an unlikely series of Serendipities.' - '' @
     ''Stella Starchelle (The Mother of Interstellar '' @
     ''Flight), 0 SFE (Space Faring Era)'' @
     ''\<newline>\<newline>This Timecraft is an Ekiya Glide Company 256 '' @
     ''Glyde Gx 2350 Temporal Edition commissioned on '' @
     ''03/17/32915 SFE by the AHC Department of Temporal Integrity:'' @
     ''\<newline>\<newline>Kima Amber Metoyo (Temporal Operative)'' @
     ''\<newline>Astra Jayne Matsume (Temporal Analyst)'' @
     ''\<newline>Delilah Quincy Matsuka (Temporal Developer)"''\<close>

text \<open>The dictionary \<^verbatim>\<open>rooms\<close>.\<close>

definition rooms :: "int \<rightharpoonup> string" where
  \<open>rooms =
     [0 \<mapsto> ''You are at the temporal developer console.  The curved glass screen displays the tmpOrl IDE and the code to fold the time craft through the fourth dimension (time).'',
      1 \<mapsto> ''You are at the port side of the timecraft.  The only thing here is a small control panel for opening the glass windshield of the timecraft.  The controls are greyed out with the word 'Unauthorized' overlayed on them.'',
      2 \<mapsto> ''You are at the starbord side of the timecraft.  There is a plaque on the wall that reads: '' @ craft_plaque,
      3 \<mapsto> ''You are at the front of the timecraft.  The temporal operative and temporal analyst would sit here to guide the craft.  On the dashboard, the chronotonium temporal filament sparkles in a dazzling array of colors underneith a dome of glass.'']\<close>

text \<open>
  \<^verbatim>\<open>rooms.get(room_number)\<close> is the description, or Python's \<^verbatim>\<open>None\<close> for
  a number that is not a key: \<^const>\<open>None\<close> here is that value, returned
  normally to the caller.
\<close>

definition room_description :: "int \<Rightarrow> string option" where
  "room_description room_number = rooms room_number"

text \<open>\<^verbatim>\<open>str.format\<close> prints \<^verbatim>\<open>None\<close> as the text \<^verbatim>\<open>None\<close>.\<close>

definition format_optional :: "string option \<Rightarrow> string" where
  "format_optional v = (case v of None \<Rightarrow> ''None'' | Some t \<Rightarrow> t)"

definition greet :: "server \<Rightarrow> server" where
  "greet s =
     s\<lparr>output_buffer :=
         ''Welcome to '' @ game_name @ ''! '' @ format_optional (room_description (room s))\<rparr>"

subsection \<open>The handlers\<close>

text \<open>
  In \<^verbatim>\<open>move\<close> the local variable \<^verbatim>\<open>room\<close> is \<^verbatim>\<open>None\<close> or a text. The
  chain of \<^verbatim>\<open>if\<close>/\<^verbatim>\<open>elif\<close> yields the server after the assignment to
  \<^verbatim>\<open>self.room\<close> together with that variable; \<^verbatim>\<open>not room\<close> holds for
  \<^verbatim>\<open>None\<close> and for the empty text.
\<close>

definition rejection :: string where
  "rejection = ''Bad! You cannot move in that direction.''"

definition repair_notice :: string where
  "repair_notice =
     ''You have some how entered an invalid state and the '' @
     ''timeline is collapsing!  You feel an unnerving lurch '' @
     ''as you are torn from the colapsing timeline and '' @
     ''returned to a stable timeline.''"

definition move_branch :: "server \<Rightarrow> string \<Rightarrow> server \<times> string option" where
  "move_branch s argument =
     (if argument = ''north'' \<and> room s = 0 then (s\<lparr>room := 3\<rparr>, None)
      else if argument = ''south'' \<and> room s = 3 then (s\<lparr>room := 0\<rparr>, None)
      else if argument = ''east'' \<and> room s = 0 then (s\<lparr>room := 1\<rparr>, None)
      else if argument = ''east'' \<and> room s = 2 then (s\<lparr>room := 0\<rparr>, None)
      else if argument = ''west'' \<and> room s = 0 then (s\<lparr>room := 2\<rparr>, None)
      else if argument = ''west'' \<and> room s = 1 then (s\<lparr>room := 0\<rparr>, None)
      else (s, Some rejection))"

definition move :: "server \<Rightarrow> string \<Rightarrow> server" where
  "move s argument =
     (case move_branch s (lower argument) of
        (s1, r0) \<Rightarrow>
          (let r1 = (if r0 = None then room_description (room s1) else r0);
               repaired = s1\<lparr>room := 0, output_buffer := repair_notice\<rparr>
           in case r1 of
                None \<Rightarrow> repaired
              | Some t \<Rightarrow> if t = [] then repaired else s1\<lparr>output_buffer := t\<rparr>))"

definition say :: "server \<Rightarrow> string \<Rightarrow> server" where
  \<open>say s argument = s\<lparr>output_buffer := ''You say, "'' @ argument @ ''"''\<rparr>\<close>

definition quit :: "server \<Rightarrow> string \<Rightarrow> server" where
  "quit s argument = s\<lparr>finished := True, output_buffer := ''Goodbye!''\<rparr>"

subsection \<open>The router\<close>

text \<open>
  \<^verbatim>\<open>self.input_buffer.split(' ')[0].lower()\<close> and
  \<^verbatim>\<open>" ".join(self.input_buffer.split(' ')[1:])\<close>. The index \<^verbatim>\<open>[0]\<close> is
  \<^const>\<open>hd\<close>, the list being non-empty (lemma \<open>split_str_nonempty\<close>), and
  the slice \<^verbatim>\<open>[1:]\<close> is \<^const>\<open>tl\<close>.
\<close>

definition command :: "string \<Rightarrow> string" where
  "command line = lower (hd (split_str CHR '' '' line))"

definition action :: "string \<Rightarrow> string" where
  "action line = join_str '' '' (tl (split_str CHR '' '' line))"

text \<open>
  The dictionary \<^verbatim>\<open>functions\<close> (that name is a reserved word of the
  proof language).
\<close>

definition functions_dict :: "string \<rightharpoonup> (server \<Rightarrow> string \<Rightarrow> server)" where
  "functions_dict = [''quit'' \<mapsto> quit, ''say'' \<mapsto> say, ''move'' \<mapsto> move]"

definition guidance :: string where
  "guidance = ''Bad! You can either move, say, or quit.''"

text \<open>A method object is true, \<^verbatim>\<open>None\<close> is false.\<close>

definition route :: "server \<Rightarrow> server" where
  "route s =
     (case functions_dict (command (input_buffer s)) of
        Some function \<Rightarrow> function s (action (input_buffer s))
      | None \<Rightarrow> s\<lparr>output_buffer := guidance\<rparr>)"

subsection \<open>The transport\<close>

text \<open>
  \<^verbatim>\<open>recv(n)\<close> returns at most \<open>n\<close> bytes of the segment that arrives
  next and leaves the rest of it for the next call; once the peer has closed
  the stream every call returns the empty byte string.
\<close>

definition recv :: "nat \<Rightarrow> connection \<Rightarrow> string \<times> connection" where
  "recv n c =
     (case incoming c of
        [] \<Rightarrow> ([], c)
      | x # xs \<Rightarrow>
          (take n x, c\<lparr>incoming := (if drop n x = [] then xs else drop n x # xs)\<rparr>))"

definition sendall :: "connection \<Rightarrow> string \<Rightarrow> connection" where
  "sendall c payload = c\<lparr>sent := sent c @ [payload]\<rparr>"

text \<open>
  The loop of \<^verbatim>\<open>get_input\<close>. It has no bound, so it is a partial function:
  \<^const>\<open>None\<close> is the loop that never ends.
\<close>

partial_function (option) receive_line :: "connection \<Rightarrow> string \<Rightarrow> (string \<times> connection) option" where
  "receive_line c msg =
     (if CHR 0x0A \<in> set msg then Some (msg, c)
      else receive_line (snd (recv 16 c)) (msg @ fst (recv 16 c)))"

text \<open>
  The assignment that ends \<^verbatim>\<open>get_input\<close>. On a message of ASCII bytes
  \<^verbatim>\<open>msg.decode()\<close> is the message itself. On other bytes \<^verbatim>\<open>decode()\<close>
  raises \<^verbatim>\<open>UnicodeDecodeError\<close> or combines several bytes into one code
  point, which this definition does not follow: the statements below about
  what a session reads are about peers whose bytes are all ASCII.
\<close>

definition get_input :: "server \<Rightarrow> server option" where
  "get_input s =
     (case receive_line (client_connection s) [] of
        None \<Rightarrow> None
      | Some (msg, c) \<Rightarrow> Some (s\<lparr>client_connection := c, input_buffer := strip msg\<rparr>))"

definition push_output :: "server \<Rightarrow> server" where
  "push_output s =
     (if startswith (output_buffer s) ''Bad!''
      then s\<lparr>client_connection :=
               sendall (client_connection s) (output_buffer s @ '' \<newline>'')\<rparr>
      else s\<lparr>client_connection :=
               sendall (client_connection s) (''OK! '' @ output_buffer s @ '' \<newline>'')\<rparr>)"

text \<open>The \<^verbatim>\<open>while not self.done\<close> loop of \<^verbatim>\<open>serve\<close>.\<close>

partial_function (option) serve_loop :: "server \<Rightarrow> server option" where
  "serve_loop s =
     (if finished s then Some s
      else Option.bind (get_input s) (\<lambda>s1. serve_loop (push_output (route s1))))"

definition close_all :: "server \<Rightarrow> server" where
  "close_all s =
     s\<lparr>client_connection := (client_connection s)\<lparr>closed := True\<rparr>, socket := Closed\<rparr>"

definition serve :: "int \<Rightarrow> string list \<Rightarrow> server option" where
  "serve p peer =
     map_option close_all (serve_loop (push_output (greet (connect p peer))))"

text \<open>
  The states in which a session tests the guard \<^verbatim>\<open>not self.done\<close>: the
  state \<open>s0\<close> in which the loop is entered and, after a test that found
  the flag false, the state that one pass through the body
  (\<^verbatim>\<open>get_input\<close>, \<^verbatim>\<open>route\<close>, \<^verbatim>\<open>push_output\<close>) leaves behind.
\<close>

inductive loop_reaches :: "server \<Rightarrow> server \<Rightarrow> bool" for s0 :: server where
  entry: "loop_reaches s0 s0"
| pass: "loop_reaches s0 s \<Longrightarrow> \<not> finished s \<Longrightarrow> get_input s = Some s1 \<Longrightarrow>
     loop_reaches s0 (push_output (route s1))"

code_pred loop_reaches .

subsection \<open>The outcome of a call of \<^verbatim>\<open>room_description\<close>\<close>

text \<open>
  The error that the specification names for the room lookup. The source
  defines no exception class and contains no \<^verbatim>\<open>raise\<close> statement.
\<close>

datatype error = InvalidRoom

text \<open>
  The body of \<^verbatim>\<open>room_description\<close> is two assignments of literals and
  \<^verbatim>\<open>return rooms.get(room_number)\<close>; for an integer argument none of them
  raises, so every call completes normally (\<^const>\<open>Inr\<close>) with the value
  that \<^const>\<open>room_description\<close> computes. \<^const>\<open>Inl\<close> stands for a call
  that raises.
\<close>

definition room_description_call :: "int \<Rightarrow> error + string option" where
  "room_description_call room_number = Inr (room_description room_number)"

subsection \<open>The parsing rule in the words of the specification\<close>

text \<open>
  The specification splits the line on the first run of white space: the
  verb is what precedes the run and the argument is what follows it. These
  two definitions follow that wording, for comparison with
  \<^const>\<open>command\<close> and \<^const>\<open>action\<close>, which follow the source.
\<close>

definition spec_verb :: "string \<Rightarrow> string" where
  "spec_verb line = lower (takeWhile (\<lambda>c. \<not> is_space c) line)"

definition spec_argument :: "string \<Rightarrow> string" where
  "spec_argument line = dropWhile is_space (dropWhile (\<lambda>c. \<not> is_space c) line)"

section \<open>Properties\<close>

subsection \<open>Splitting and joining\<close>

lemma split_str_nonempty: "split_str sep s \<noteq> []"
  by (induction s) (auto split: list.splits)

lemma hd_split_str: "hd (split_str sep s) = takeWhile (\<lambda>c. c \<noteq> sep) s"
  by (induction s) (auto split: list.splits simp: split_str_nonempty)

lemma join_split_str: "join_str [sep] (split_str sep s) = s"
proof (induction s)
  case Nil
  show ?case by simp
next
  case (Cons c cs)
  show ?case
  proof (cases "c = sep")
    case True
    obtain w ws where "split_str sep cs = w # ws"
      using split_str_nonempty [of sep cs] by (cases "split_str sep cs") auto
    with True Cons show ?thesis by simp
  next
    case False
    obtain w ws where e: "split_str sep cs = w # ws"
      using split_str_nonempty [of sep cs] by (cases "split_str sep cs") auto
    with False Cons show ?thesis by (cases ws) auto
  qed
qed

lemma join_tl_split_str:
  "join_str [sep] (tl (split_str sep s)) = tl (dropWhile (\<lambda>c. c \<noteq> sep) s)"
proof (induction s)
  case Nil
  show ?case by simp
next
  case (Cons c cs)
  show ?case
  proof (cases "c = sep")
    case True
    then show ?thesis by (simp add: join_split_str)
  next
    case False
    obtain w ws where e: "split_str sep cs = w # ws"
      using split_str_nonempty [of sep cs] by (cases "split_str sep cs") auto
    with False Cons show ?thesis by simp
  qed
qed

subsection \<open>Constants of the game\<close>

lemma lower_tokens:
  "lower ''north'' = ''north''" "lower ''south'' = ''south''"
  "lower ''east'' = ''east''" "lower ''west'' = ''west''"
  by (simp_all add: lower_def lower_char_def is_upper_def)

lemma rooms_values:
  "rooms 0 \<noteq> None" "rooms 1 \<noteq> None" "rooms 2 \<noteq> None" "rooms 3 \<noteq> None"
  "rooms 0 \<noteq> Some []" "rooms 1 \<noteq> Some []" "rooms 2 \<noteq> Some []" "rooms 3 \<noteq> Some []"
  by (simp_all add: rooms_def)

lemma rooms_dom: "(rooms r = None) = (r \<notin> {0, 1, 2, 3})"
  by (simp add: rooms_def)

subsection \<open>The read loop\<close>

text \<open>
  A read that returns has seen a line feed: in what was accumulated before,
  or in a segment that was still to arrive.
\<close>

lemma receive_line_needs_newline:
  assumes "receive_line c msg = Some r"
  shows "CHR 0x0A \<in> set msg \<or> (\<exists>x \<in> set (incoming c). CHR 0x0A \<in> set x)"
proof (rule receive_line.raw_induct
    [where P = "\<lambda>c msg r. CHR 0x0A \<in> set msg \<or> (\<exists>x \<in> set (incoming c). CHR 0x0A \<in> set x)",
      OF _ assms])
  fix rl :: "connection \<Rightarrow> string \<Rightarrow> (string \<times> connection) option"
  fix c msg r
  assume IH: "\<And>c msg y. rl c msg = Some y \<Longrightarrow>
      CHR 0x0A \<in> set msg \<or> (\<exists>x \<in> set (incoming c). CHR 0x0A \<in> set x)"
  assume eq: "(if CHR 0x0A \<in> set msg then Some (msg, c)
      else rl (snd (recv 16 c)) (msg @ fst (recv 16 c))) = Some r"
  show "CHR 0x0A \<in> set msg \<or> (\<exists>x \<in> set (incoming c). CHR 0x0A \<in> set x)"
  proof (cases "CHR 0x0A \<in> set msg")
    case True
    then show ?thesis by simp
  next
    case False
    with eq have "rl (snd (recv 16 c)) (msg @ fst (recv 16 c)) = Some r" by simp
    from IH [OF this] False show ?thesis
      by (auto simp: recv_def split: list.splits if_splits dest: in_set_takeD in_set_dropD)
  qed
qed

lemma receive_line_None:
  assumes "CHR 0x0A \<notin> set msg" and "\<forall>x \<in> set (incoming c). CHR 0x0A \<notin> set x"
  shows "receive_line c msg = None"
proof (cases "receive_line c msg")
  case None
  then show ?thesis .
next
  case (Some r)
  from receive_line_needs_newline [OF this] assms show ?thesis by blast
qed

lemma get_input_None:
  "\<forall>x \<in> set (incoming (client_connection s)). CHR 0x0A \<notin> set x \<Longrightarrow> get_input s = None"
  by (simp add: get_input_def receive_line_None)

lemma serve_loop_None:
  "\<not> finished s \<Longrightarrow> get_input s = None \<Longrightarrow> serve_loop s = None"
  by (subst serve_loop.simps) simp

lemma push_output_fields:
  "finished (push_output s) = finished s"
  "room (push_output s) = room s"
  "socket (push_output s) = socket s"
  "output_buffer (push_output s) = output_buffer s"
  "input_buffer (push_output s) = input_buffer s"
  "incoming (client_connection (push_output s)) = incoming (client_connection s)"
  "closed (client_connection (push_output s)) = closed (client_connection s)"
  by (simp_all add: push_output_def sendall_def)

subsection \<open>Moving between rooms\<close>

text \<open>
  A branch of \<^verbatim>\<open>move\<close> that assigns one of the four rooms to
  \<^verbatim>\<open>self.room\<close> ends with that room's description in the output buffer.
\<close>

lemma move_edge:
  assumes "move_branch s (lower argument) = (s\<lparr>room := dest\<rparr>, None)"
    and "dest \<in> {0, 1, 2, 3}"
  shows "room (move s argument) = dest \<and> Some (output_buffer (move s argument)) = room_description dest
     \<and> move s argument = s\<lparr>room := dest, output_buffer := output_buffer (move s argument)\<rparr>"
proof -
  from assms(2) obtain t where t: "rooms dest = Some t" "t \<noteq> []"
    using rooms_values by auto
  with assms(1) show ?thesis
    by (simp add: move_def room_description_def)
qed

text \<open>
  Claim C2. For each of the six edges of the map, (0, north) to 3,
  (3, south) to 0, (0, east) to 1, (1, west) to 0, (0, west) to 2 and
  (2, east) to 0, the move handler called in the source room with that
  direction sets the current room to the destination and puts the
  destination's description into the output buffer.
\<close>

theorem move_defined_edges:
  "room (move (s\<lparr>room := 0\<rparr>) ''north'') = 3 \<and>
   Some (output_buffer (move (s\<lparr>room := 0\<rparr>) ''north'')) = room_description 3 \<and>
   room (move (s\<lparr>room := 3\<rparr>) ''south'') = 0 \<and>
   Some (output_buffer (move (s\<lparr>room := 3\<rparr>) ''south'')) = room_description 0 \<and>
   room (move (s\<lparr>room := 0\<rparr>) ''east'') = 1 \<and>
   Some (output_buffer (move (s\<lparr>room := 0\<rparr>) ''east'')) = room_description 1 \<and>
   room (move (s\<lparr>room := 1\<rparr>) ''west'') = 0 \<and>
   Some (output_buffer (move (s\<lparr>room := 1\<rparr>) ''west'')) = room_description 0 \<and>
   room (move (s\<lparr>room := 0\<rparr>) ''west'') = 2 \<and>
   Some (output_buffer (move (s\<lparr>room := 0\<rparr>) ''west'')) = room_description 2 \<and>
   room (move (s\<lparr>room := 2\<rparr>) ''east'') = 0 \<and>
   Some (output_buffer (move (s\<lparr>room := 2\<rparr>) ''east'')) = room_description 0"
proof -
  have n: "move_branch (s\<lparr>room := 0\<rparr>) (lower ''north'') = (s\<lparr>room := 0\<rparr>\<lparr>room := 3\<rparr>, None)"
    by (simp add: move_branch_def lower_tokens)
  have so: "move_branch (s\<lparr>room := 3\<rparr>) (lower ''south'') = (s\<lparr>room := 3\<rparr>\<lparr>room := 0\<rparr>, None)"
    by (simp add: move_branch_def lower_tokens)
  have e0: "move_branch (s\<lparr>room := 0\<rparr>) (lower ''east'') = (s\<lparr>room := 0\<rparr>\<lparr>room := 1\<rparr>, None)"
    by (simp add: move_branch_def lower_tokens)
  have w1: "move_branch (s\<lparr>room := 1\<rparr>) (lower ''west'') = (s\<lparr>room := 1\<rparr>\<lparr>room := 0\<rparr>, None)"
    by (simp add: move_branch_def lower_tokens)
  have w0: "move_branch (s\<lparr>room := 0\<rparr>) (lower ''west'') = (s\<lparr>room := 0\<rparr>\<lparr>room := 2\<rparr>, None)"
    by (simp add: move_branch_def lower_tokens)
  have e2: "move_branch (s\<lparr>room := 2\<rparr>) (lower ''east'') = (s\<lparr>room := 2\<rparr>\<lparr>room := 0\<rparr>, None)"
    by (simp add: move_branch_def lower_tokens)
  show ?thesis
    using move_edge [OF n] move_edge [OF so] move_edge [OF e0]
      move_edge [OF w1] move_edge [OF w0] move_edge [OF e2]
    by simp
qed

theorem move_defined_edges_witness:
  "room (move (connect 50000 []) ''north'') = 3 \<and>
   Some (output_buffer (move (connect 50000 []) ''north'')) = room_description 3"
  using move_defined_edges [of "connect 50000 []"]
  by (simp add: connect_def)

subsection \<open>Rejected moves\<close>

lemma push_output_sent:
  "sent (client_connection (push_output s)) =
     sent (client_connection s) @
       [if startswith (output_buffer s) ''Bad!'' then output_buffer s @ '' \<newline>''
        else ''OK! '' @ output_buffer s @ '' \<newline>'']"
  by (simp add: push_output_def sendall_def)

lemma move_branch_rejects:
  assumes "(room s, direction) \<notin>
     {(0, ''north''), (3, ''south''), (0, ''east''), (1, ''west''), (0, ''west''), (2, ''east'')}"
  shows "move_branch s direction = (s, Some rejection)"
proof -
  have c1: "\<not> (direction = ''north'' \<and> room s = 0)" using assms by blast
  have c2: "\<not> (direction = ''south'' \<and> room s = 3)" using assms by blast
  have c3: "\<not> (direction = ''east'' \<and> room s = 0)" using assms by blast
  have c4: "\<not> (direction = ''east'' \<and> room s = 2)" using assms by blast
  have c5: "\<not> (direction = ''west'' \<and> room s = 0)" using assms by blast
  have c6: "\<not> (direction = ''west'' \<and> room s = 1)" using assms by blast
  show ?thesis
    unfolding move_branch_def by (simp only: c1 c2 c3 c4 c5 c6 if_False)
qed

lemma move_of_rejection:
  assumes "move_branch s (lower argument) = (s, Some rejection)"
  shows "move s argument = s\<lparr>output_buffer := rejection\<rparr>"
proof -
  have "rejection \<noteq> []"
    by (simp add: rejection_def)
  then show ?thesis
    unfolding move_def assms by simp
qed

lemma rejection_framed:
  "sent (client_connection (push_output (s\<lparr>output_buffer := rejection\<rparr>))) =
     sent (client_connection s) @ [''Bad! You cannot move in that direction. \<newline>'']"
  by (simp add: push_output_sent rejection_def startswith_def)

text \<open>
  Claim C3. In a room of 0, 1, 2, 3, when the lower-cased direction argument
  is not one of the four direction words, or forms with the current room a
  pair that is not an edge of the map, the move handler leaves the current
  room unchanged and produces the rejection message
  \<^verbatim>\<open>You cannot move in that direction.\<close> under the marker \<^verbatim>\<open>Bad!\<close>, which
  is sent without the \<^verbatim>\<open>OK!\<close> prefix.
\<close>

theorem move_rejected:
  assumes "room s \<in> {0, 1, 2, 3}"
    and "lower argument \<notin> {''north'', ''south'', ''east'', ''west''} \<or>
         (room s, lower argument) \<notin>
           {(0, ''north''), (3, ''south''), (0, ''east''), (1, ''west''), (0, ''west''), (2, ''east'')}"
  shows "move s argument = s\<lparr>output_buffer := ''Bad! You cannot move in that direction.''\<rparr> \<and>
         room (move s argument) = room s \<and>
         sent (client_connection (push_output (move s argument))) =
           sent (client_connection s) @ [''Bad! You cannot move in that direction. \<newline>'']"
proof -
  from assms(2) have "(room s, lower argument) \<notin>
      {(0, ''north''), (3, ''south''), (0, ''east''), (1, ''west''), (0, ''west''), (2, ''east'')}"
    by blast
  then have "move_branch s (lower argument) = (s, Some rejection)"
    by (rule move_branch_rejects)
  then have m: "move s argument = s\<lparr>output_buffer := rejection\<rparr>"
    by (rule move_of_rejection)
  have a: "move s argument = s\<lparr>output_buffer := ''Bad! You cannot move in that direction.''\<rparr>"
    unfolding m rejection_def by (rule refl)
  have b: "room (move s argument) = room s"
    unfolding m by simp
  have c: "sent (client_connection (push_output (move s argument))) =
           sent (client_connection s) @ [''Bad! You cannot move in that direction. \<newline>'']"
    unfolding m by (rule rejection_framed)
  from a b c show ?thesis by (intro conjI)
qed

lemma lower_East: "lower ''East'' = ''east''"
  by (simp add: lower_def lower_char_def is_upper_def)

theorem move_rejected_witness:
  "move ((connect 50000 [])\<lparr>room := 3\<rparr>) ''East'' =
     (connect 50000 [])\<lparr>room := 3\<rparr>\<lparr>output_buffer := ''Bad! You cannot move in that direction.''\<rparr> \<and>
   room (move ((connect 50000 [])\<lparr>room := 3\<rparr>) ''East'') = room ((connect 50000 [])\<lparr>room := 3\<rparr>) \<and>
   sent (client_connection (push_output (move ((connect 50000 [])\<lparr>room := 3\<rparr>) ''East''))) =
     sent (client_connection ((connect 50000 [])\<lparr>room := 3\<rparr>)) @
     [''Bad! You cannot move in that direction. \<newline>'']"
proof -
  have h1: "room ((connect 50000 [])\<lparr>room := 3\<rparr>) \<in> {0, 1, 2, 3}"
    by simp
  have h2: "lower ''East'' \<notin> {''north'', ''south'', ''east'', ''west''} \<or>
         (room ((connect 50000 [])\<lparr>room := 3\<rparr>), lower ''East'') \<notin>
           {(0, ''north''), (3, ''south''), (0, ''east''), (1, ''west''), (0, ''west''), (2, ''east'')}"
    unfolding lower_East by simp
  show ?thesis
    by (rule move_rejected [OF h1 h2])
qed

subsection \<open>The repair branch of \<^verbatim>\<open>move\<close>\<close>

text \<open>
  Claim C4 says that with a current room that is not a key of the room
  dictionary the move handler resets the room to 0 and answers with the
  repair notice. The source does not: no branch of the chain matches such a
  room, so the \<^verbatim>\<open>else\<close> branch stores the rejection text in the local variable,
  the description lookup is skipped, \<^verbatim>\<open>not room\<close> is false, and the room stays
  as it was. At room 7 and direction \<^verbatim>\<open>north\<close>:
\<close>

theorem move_invalid_room_not_repaired:
  "move (s\<lparr>room := 7\<rparr>) ''north'' =
     s\<lparr>room := 7\<rparr>\<lparr>output_buffer := ''Bad! You cannot move in that direction.''\<rparr> \<and>
   room (move (s\<lparr>room := 7\<rparr>) ''north'') = 7 \<and>
   output_buffer (move (s\<lparr>room := 7\<rparr>) ''north'') \<noteq> repair_notice"
proof -
  have "(room (s\<lparr>room := 7\<rparr>), lower ''north'') \<notin>
      {(0, ''north''), (3, ''south''), (0, ''east''), (1, ''west''), (0, ''west''), (2, ''east'')}"
    unfolding lower_tokens by simp
  then have "move_branch (s\<lparr>room := 7\<rparr>) (lower ''north'') = (s\<lparr>room := 7\<rparr>, Some rejection)"
    by (rule move_branch_rejects)
  then have m: "move (s\<lparr>room := 7\<rparr>) ''north'' = s\<lparr>room := 7\<rparr>\<lparr>output_buffer := rejection\<rparr>"
    by (rule move_of_rejection)
  have a: "move (s\<lparr>room := 7\<rparr>) ''north'' =
      s\<lparr>room := 7\<rparr>\<lparr>output_buffer := ''Bad! You cannot move in that direction.''\<rparr>"
    unfolding m rejection_def by (rule refl)
  have b: "room (move (s\<lparr>room := 7\<rparr>) ''north'') = 7"
    unfolding m by simp
  have "rejection \<noteq> repair_notice"
    by (simp add: rejection_def repair_notice_def)
  then have c: "output_buffer (move (s\<lparr>room := 7\<rparr>) ''north'') \<noteq> repair_notice"
    unfolding m by simp
  from a b c show ?thesis by (intro conjI)
qed

subsection \<open>The room lookup\<close>

text \<open>
  Claim C5 as stated, that the lookup fails with an \<open>InvalidRoom\<close> error
  outside 0, 1, 2, 3, does not hold: the call for 7 completes normally and
  returns \<^verbatim>\<open>None\<close>.
\<close>

theorem room_description_no_error:
  "room_description_call 7 = Inr None \<and> room_description_call 7 \<noteq> Inl InvalidRoom"
  by (simp add: room_description_call_def room_description_def rooms_def)

text \<open>
  Claim C5, amended. The room lookup is total: every call returns normally.
  For a room number in 0, 1, 2, 3 it returns that room's description, a
  non-empty text; for any other number it returns \<^verbatim>\<open>None\<close>, and no error is
  raised.
\<close>

theorem room_description_total:
  "room_description_call r = Inr (room_description r) \<and>
   (r \<in> {0, 1, 2, 3} \<longrightarrow> (\<exists>d. room_description r = Some d \<and> d \<noteq> [])) \<and>
   (r \<notin> {0, 1, 2, 3} \<longrightarrow> room_description r = None)"
proof -
  have a: "room_description_call r = Inr (room_description r)"
    by (simp add: room_description_call_def)
  have b: "\<exists>d. room_description r = Some d \<and> d \<noteq> []" if "r \<in> {0, 1, 2, 3}"
  proof -
    from that have "rooms r \<noteq> None" and "rooms r \<noteq> Some []"
      using rooms_values by auto
    then show ?thesis
      unfolding room_description_def by (cases "rooms r") auto
  qed
  have c: "room_description r = None" if "r \<notin> {0, 1, 2, 3}"
    using that rooms_dom [of r] unfolding room_description_def by blast
  from a b c show ?thesis by blast
qed

theorem room_description_total_witness:
  "(7::int) \<notin> {0, 1, 2, 3} \<and> room_description 7 = None \<and>
   (2::int) \<in> {0, 1, 2, 3} \<and> (\<exists>d. room_description 2 = Some d \<and> d \<noteq> [])"
proof -
  have h7: "(7::int) \<notin> {0, 1, 2, 3}" by simp
  have h2: "(2::int) \<in> {0, 1, 2, 3}" by simp
  from room_description_total [of 7] h7 have a: "room_description 7 = None" by blast
  from room_description_total [of 2] h2 have b: "\<exists>d. room_description 2 = Some d \<and> d \<noteq> []" by blast
  from h7 a h2 b show ?thesis by (intro conjI)
qed

subsection \<open>Unrecognised verbs\<close>

lemma functions_dict_None:
  assumes "c \<notin> {''move'', ''say'', ''quit''}"
  shows "functions_dict c = None"
proof -
  from assms have "c \<noteq> ''move''" and "c \<noteq> ''say''" and "c \<noteq> ''quit''"
    by blast+
  then show ?thesis
    unfolding functions_dict_def by simp
qed

lemma guidance_framed:
  "sent (client_connection (push_output (s\<lparr>output_buffer := guidance\<rparr>))) =
     sent (client_connection s) @ [''Bad! You can either move, say, or quit. \<newline>'']"
  by (simp add: push_output_sent guidance_def startswith_def)

text \<open>
  Claim C7. For an input line whose verb is none of \<^verbatim>\<open>move\<close>, \<^verbatim>\<open>say\<close> and
  \<^verbatim>\<open>quit\<close> (the empty line included), the router produces the message
  \<^verbatim>\<open>You can either move, say, or quit.\<close> under the marker \<^verbatim>\<open>Bad!\<close>, sent
  without the \<^verbatim>\<open>OK!\<close> prefix; the termination flag, the current room and
  every other attribute are unchanged.
\<close>

theorem route_unrecognized:
  assumes "command (input_buffer s) \<notin> {''move'', ''say'', ''quit''}"
  shows "route s = s\<lparr>output_buffer := ''Bad! You can either move, say, or quit.''\<rparr> \<and>
         finished (route s) = finished s \<and>
         room (route s) = room s \<and>
         sent (client_connection (push_output (route s))) =
           sent (client_connection s) @ [''Bad! You can either move, say, or quit. \<newline>'']"
proof -
  from assms have "functions_dict (command (input_buffer s)) = None"
    by (rule functions_dict_None)
  then have r: "route s = s\<lparr>output_buffer := guidance\<rparr>"
    unfolding route_def by simp
  have a: "route s = s\<lparr>output_buffer := ''Bad! You can either move, say, or quit.''\<rparr>"
    unfolding r guidance_def by (rule refl)
  have b: "finished (route s) = finished s"
    unfolding r by simp
  have c: "room (route s) = room s"
    unfolding r by simp
  have d: "sent (client_connection (push_output (route s))) =
           sent (client_connection s) @ [''Bad! You can either move, say, or quit. \<newline>'']"
    unfolding r by (rule guidance_framed)
  from a b c d show ?thesis by (intro conjI)
qed

lemma command_dance: "command ''dance'' = ''dance''"
  by (simp add: command_def lower_def lower_char_def is_upper_def)

lemma command_empty: "command [] = []"
  by (simp add: command_def lower_def)

theorem route_unrecognized_witness:
  "route ((connect 50000 [])\<lparr>input_buffer := ''dance''\<rparr>) =
     (connect 50000 [])\<lparr>input_buffer := ''dance''\<rparr>
       \<lparr>output_buffer := ''Bad! You can either move, say, or quit.''\<rparr> \<and>
   route ((connect 50000 [])\<lparr>input_buffer := []\<rparr>) =
     (connect 50000 [])\<lparr>input_buffer := []\<rparr>
       \<lparr>output_buffer := ''Bad! You can either move, say, or quit.''\<rparr>"
proof -
  have h1: "command (input_buffer ((connect 50000 [])\<lparr>input_buffer := ''dance''\<rparr>))
      \<notin> {''move'', ''say'', ''quit''}"
    by (simp add: command_dance)
  have h2: "command (input_buffer ((connect 50000 [])\<lparr>input_buffer := []\<rparr>))
      \<notin> {''move'', ''say'', ''quit''}"
    by (simp add: command_empty)
  show ?thesis
    by (rule conjI, rule conjunct1 [OF route_unrecognized [OF h1]],
        rule conjunct1 [OF route_unrecognized [OF h2]])
qed

subsection \<open>Which handlers assign the room\<close>

lemma route_cases:
  "route s =
     (if command (input_buffer s) = ''move'' then move s (action (input_buffer s))
      else if command (input_buffer s) = ''say'' then say s (action (input_buffer s))
      else if command (input_buffer s) = ''quit'' then quit s (action (input_buffer s))
      else s\<lparr>output_buffer := guidance\<rparr>)"
  unfolding route_def functions_dict_def by simp

text \<open>
  Claim C10. The say handler, the quit handler and the fallback for an
  unrecognised verb leave the current room unchanged: whenever the verb of
  the input line is not \<^verbatim>\<open>move\<close>, routing does not change the room.
\<close>

theorem only_move_changes_room:
  "room (say s argument) = room s \<and>
   room (quit s argument) = room s \<and>
   (command (input_buffer s) \<noteq> ''move'' \<longrightarrow> room (route s) = room s)"
proof -
  have a: "room (say s argument) = room s" for argument
    by (simp add: say_def)
  have b: "room (quit s argument) = room s" for argument
    by (simp add: quit_def)
  have c: "room (route s) = room s" if "command (input_buffer s) \<noteq> ''move''"
    unfolding route_cases using that a b by simp
  from a b c show ?thesis by blast
qed

lemma command_say_hi: "command ''say hi'' = ''say''"
  by (simp add: command_def lower_def lower_char_def is_upper_def)

theorem only_move_changes_room_witness:
  "command (input_buffer ((connect 50000 [])\<lparr>input_buffer := ''say hi'', room := 3\<rparr>)) \<noteq> ''move'' \<and>
   room (route ((connect 50000 [])\<lparr>input_buffer := ''say hi'', room := 3\<rparr>)) =
     room ((connect 50000 [])\<lparr>input_buffer := ''say hi'', room := 3\<rparr>)"
proof -
  have h: "command (input_buffer ((connect 50000 [])\<lparr>input_buffer := ''say hi'', room := 3\<rparr>)) \<noteq> ''move''"
    by (simp add: command_say_hi)
  from only_move_changes_room [of "(connect 50000 [])\<lparr>input_buffer := ''say hi'', room := 3\<rparr>"] h
  have "room (route ((connect 50000 [])\<lparr>input_buffer := ''say hi'', room := 3\<rparr>)) =
     room ((connect 50000 [])\<lparr>input_buffer := ''say hi'', room := 3\<rparr>)"
    by blast
  with h show ?thesis by (intro conjI)
qed

subsection \<open>How the router parses a line\<close>

lemma dropWhile_no_sep:
  assumes "sep \<notin> set xs"
  shows "dropWhile (\<lambda>c. c \<noteq> sep) xs = []"
proof -
  from assms have "\<forall>x \<in> set xs. x \<noteq> sep" by blast
  then show ?thesis by simp
qed

lemma dropWhile_at_sep:
  assumes "sep \<in> set xs"
  shows "dropWhile (\<lambda>c. c \<noteq> sep) xs = sep # tl (dropWhile (\<lambda>c. c \<noteq> sep) xs)"
proof -
  from assms have n: "dropWhile (\<lambda>c. c \<noteq> sep) xs \<noteq> []"
    by (simp add: dropWhile_eq_Nil_conv)
  from hd_dropWhile [OF n] have "hd (dropWhile (\<lambda>c. c \<noteq> sep) xs) = sep"
    by simp
  with n show ?thesis
    by (cases "dropWhile (\<lambda>c. c \<noteq> sep) xs") simp_all
qed

lemma route_known:
  assumes "functions_dict (command (input_buffer s)) = Some handler"
  shows "route s = handler s (action (input_buffer s))"
  unfolding route_def assms by simp

text \<open>
  Claim C6 as stated, that the line is split on the first run of white
  space, does not hold. On the line \<^verbatim>\<open>say\<close>, two spaces, \<^verbatim>\<open>hi\<close> the argument
  that the router hands to the handler starts with the second space, where
  the wording of the specification gives \<^verbatim>\<open>hi\<close>.
\<close>

theorem route_split_counterexample:
  \<open>action ''say  hi'' = '' hi'' \<and>
   spec_argument ''say  hi'' = ''hi'' \<and>
   action ''say  hi'' \<noteq> spec_argument ''say  hi'' \<and>
   output_buffer (route ((connect 50000 [])\<lparr>input_buffer := ''say  hi''\<rparr>)) = ''You say, " hi"''\<close>
proof -
  have a: "action ''say  hi'' = '' hi''"
    by (simp add: action_def)
  have b: "spec_argument ''say  hi'' = ''hi''"
    by (simp add: spec_argument_def is_space_def)
  have c: "action ''say  hi'' \<noteq> spec_argument ''say  hi''"
    unfolding a b by simp
  have k: "command ''say  hi'' = ''say''"
    by (simp add: command_def lower_def lower_char_def is_upper_def)
  have d: \<open>output_buffer (route ((connect 50000 [])\<lparr>input_buffer := ''say  hi''\<rparr>)) = ''You say, " hi"''\<close>
    unfolding route_cases by (simp add: k a say_def)
  from a b c d show ?thesis by (intro conjI)
qed

text \<open>
  Claim C6, amended. For every input line the router splits the line at its
  first space character: the verb is the text before that space (the whole
  line when there is none), lower-cased; the argument is everything after
  that one space (empty when there is none), so that the line is the verb as
  typed, the space, and the argument. The argument reaches the handler as it
  is, and the say handler quotes it unchanged.
\<close>

theorem route_splits_at_first_space:
  \<open>command line = lower (takeWhile (\<lambda>c. c \<noteq> CHR '' '') line) \<and>
   action line = tl (dropWhile (\<lambda>c. c \<noteq> CHR '' '') line) \<and>
   (CHR '' '' \<notin> set line \<longrightarrow> action line = []) \<and>
   (CHR '' '' \<in> set line \<longrightarrow>
      line = takeWhile (\<lambda>c. c \<noteq> CHR '' '') line @ CHR '' '' # action line) \<and>
   (functions_dict (command (input_buffer s)) = Some handler \<longrightarrow>
      route s = handler s (action (input_buffer s))) \<and>
   say s (action line) = s\<lparr>output_buffer := ''You say, "'' @ action line @ ''"''\<rparr>\<close>
proof -
  have a: "command line = lower (takeWhile (\<lambda>c. c \<noteq> CHR '' '') line)"
    unfolding command_def hd_split_str by (rule refl)
  have b: "action line = tl (dropWhile (\<lambda>c. c \<noteq> CHR '' '') line)"
    unfolding action_def by (rule join_tl_split_str)
  have c: "action line = []" if "CHR '' '' \<notin> set line"
    unfolding b dropWhile_no_sep [OF that] by simp
  have d: "line = takeWhile (\<lambda>c. c \<noteq> CHR '' '') line @ CHR '' '' # action line"
    if "CHR '' '' \<in> set line"
  proof -
    have "line = takeWhile (\<lambda>c. c \<noteq> CHR '' '') line @ dropWhile (\<lambda>c. c \<noteq> CHR '' '') line"
      by simp
    also have "dropWhile (\<lambda>c. c \<noteq> CHR '' '') line = CHR '' '' # action line"
      unfolding b by (rule dropWhile_at_sep [OF that])
    finally show ?thesis .
  qed
  have e: "route s = handler s (action (input_buffer s))"
    if "functions_dict (command (input_buffer s)) = Some handler"
    using that by (rule route_known)
  have f: \<open>say s (action line) = s\<lparr>output_buffer := ''You say, "'' @ action line @ ''"''\<rparr>\<close>
    by (simp add: say_def)
  from a b c d e f show ?thesis by blast
qed

lemma command_SAY: "command ''SAY Hi there'' = ''say''"
  by (simp add: command_def lower_def lower_char_def is_upper_def)

theorem route_splits_at_first_space_witness:
  "CHR '' '' \<in> set ''SAY Hi there'' \<and>
   ''SAY Hi there'' =
     takeWhile (\<lambda>c. c \<noteq> CHR '' '') ''SAY Hi there'' @ CHR '' '' # action ''SAY Hi there'' \<and>
   functions_dict (command (input_buffer ((connect 50000 [])\<lparr>input_buffer := ''SAY Hi there''\<rparr>))) =
     Some say \<and>
   route ((connect 50000 [])\<lparr>input_buffer := ''SAY Hi there''\<rparr>) =
     say ((connect 50000 [])\<lparr>input_buffer := ''SAY Hi there''\<rparr>)
       (action (input_buffer ((connect 50000 [])\<lparr>input_buffer := ''SAY Hi there''\<rparr>)))"
proof -
  have h1: "CHR '' '' \<in> set ''SAY Hi there''"
    by simp
  have h2: "functions_dict (command (input_buffer ((connect 50000 [])\<lparr>input_buffer := ''SAY Hi there''\<rparr>))) =
     Some say"
    by (simp add: command_SAY functions_dict_def)
  note t = route_splits_at_first_space
    [of "''SAY Hi there''" "(connect 50000 [])\<lparr>input_buffer := ''SAY Hi there''\<rparr>" say]
  from t h1 have a: "''SAY Hi there'' =
     takeWhile (\<lambda>c. c \<noteq> CHR '' '') ''SAY Hi there'' @ CHR '' '' # action ''SAY Hi there''"
    by blast
  from t h2 have b: "route ((connect 50000 [])\<lparr>input_buffer := ''SAY Hi there''\<rparr>) =
     say ((connect 50000 [])\<lparr>input_buffer := ''SAY Hi there''\<rparr>)
       (action (input_buffer ((connect 50000 [])\<lparr>input_buffer := ''SAY Hi there''\<rparr>)))"
    by blast
  from h1 a h2 b show ?thesis by (intro conjI)
qed

subsection \<open>Framing of the farewell\<close>

lemma route_quit:
  assumes "command (input_buffer t) = ''quit''"
  shows "route t = quit t (action (input_buffer t))"
  unfolding route_cases assms by simp

lemma quit_framed:
  "sent (client_connection (push_output (quit s argument))) =
     sent (client_connection s) @ [''OK! Goodbye! \<newline>'']"
  by (simp add: push_output_sent quit_def startswith_def)

lemma command_quit: "command ''quit'' = ''quit''"
  by (simp add: command_def lower_def lower_char_def is_upper_def)

text \<open>
  Claim C1 says that after a \<^verbatim>\<open>quit\<close> command the client receives exactly
  \<^verbatim>\<open>OK! Goodbye!\<close> and a line feed, and the documentation of
  \<^verbatim>\<open>push_output\<close> says that the method appends a line feed. The source
  appends a space and a line feed, in both branches: what is sent after
  \<^verbatim>\<open>quit\<close> on a fresh connection has a space before the line feed.
\<close>

theorem push_output_trailing_space:
  "sent (client_connection (push_output (route ((connect 50000 [])\<lparr>input_buffer := ''quit''\<rparr>)))) =
     [''OK! Goodbye! \<newline>''] \<and>
   ''OK! Goodbye! \<newline>'' \<noteq> ''OK! Goodbye!\<newline>''"
proof -
  have "command (input_buffer ((connect 50000 [])\<lparr>input_buffer := ''quit''\<rparr>)) = ''quit''"
    by (simp add: command_quit)
  then have r: "route ((connect 50000 [])\<lparr>input_buffer := ''quit''\<rparr>) =
      quit ((connect 50000 [])\<lparr>input_buffer := ''quit''\<rparr>)
        (action (input_buffer ((connect 50000 [])\<lparr>input_buffer := ''quit''\<rparr>)))"
    by (rule route_quit)
  have a: "sent (client_connection (push_output (route ((connect 50000 [])\<lparr>input_buffer := ''quit''\<rparr>)))) =
     [''OK! Goodbye! \<newline>'']"
    unfolding r quit_framed by (simp add: connect_def)
  have b: "''OK! Goodbye! \<newline>'' \<noteq> ''OK! Goodbye!\<newline>''"
    by simp
  from a b show ?thesis by (intro conjI)
qed

subsection \<open>The session loop\<close>

lemma serve_loop_step:
  assumes "\<not> finished t" and "get_input t = Some t1"
  shows "serve_loop t = serve_loop (push_output (route t1))"
  using assms by (subst serve_loop.simps) simp

lemma serve_loop_finished:
  assumes "finished t"
  shows "serve_loop t = Some t"
  using assms by (subst serve_loop.simps) simp

lemma serve_loop_reaches:
  assumes "loop_reaches s0 t"
  shows "serve_loop s0 = serve_loop t"
  using assms
proof (induction rule: loop_reaches.induct)
  case entry
  show ?case by (rule refl)
next
  case (pass s s1)
  from pass.hyps(2) pass.hyps(3)
  have "serve_loop s = serve_loop (push_output (route s1))"
    by (rule serve_loop_step)
  with pass.IH show ?case by (rule trans)
qed

lemma close_all_quit:
  "close_all (push_output (quit t1 argument)) =
     t1\<lparr>finished := True, output_buffer := ''Goodbye!'', socket := Closed,
        client_connection := (client_connection t1)
          \<lparr>sent := sent (client_connection t1) @ [''OK! Goodbye! \<newline>''], closed := True\<rparr>\<rparr>"
  by (simp add: close_all_def push_output_def sendall_def quit_def startswith_def)

lemma get_input_segment:
  assumes "incoming (client_connection s) = (line @ [CHR 0x0A]) # rest"
    and "CHR 0x0A \<notin> set line" and "length line < 16"
  shows "get_input s =
     Some (s\<lparr>client_connection := (client_connection s)\<lparr>incoming := rest\<rparr>,
             input_buffer := strip (line @ [CHR 0x0A])\<rparr>)"
proof -
  have r: "recv 16 (client_connection s) =
      (line @ [CHR 0x0A], (client_connection s)\<lparr>incoming := rest\<rparr>)"
    using assms(1) assms(3) by (simp add: recv_def)
  have "receive_line (client_connection s) [] =
      receive_line ((client_connection s)\<lparr>incoming := rest\<rparr>) (line @ [CHR 0x0A])"
    by (subst receive_line.simps) (simp add: r)
  also have "\<dots> = Some (line @ [CHR 0x0A], (client_connection s)\<lparr>incoming := rest\<rparr>)"
    by (subst receive_line.simps) simp
  finally show ?thesis
    by (simp add: get_input_def)
qed

text \<open>
  Claim C8. For every argument and every state the quit handler ignores the
  argument, sets the termination flag and produces \<^verbatim>\<open>Goodbye!\<close>, which is
  sent with the \<^verbatim>\<open>OK!\<close> prefix. In a session on port \<open>p\<close> with a peer whose
  bytes are all ASCII, whenever the loop of \<^verbatim>\<open>serve\<close> reads a line whose
  verb is \<^verbatim>\<open>quit\<close>, at the first pass or after any number of other commands,
  \<^verbatim>\<open>serve\<close> returns. The state it returns in is the state \<open>t1\<close> after that
  read with the flag set, the farewell as the last payload sent, nothing more
  taken from the peer, and the connection and the listening socket closed.
\<close>

theorem quit_ends_session:
  "quit s argument = s\<lparr>finished := True, output_buffer := ''Goodbye!''\<rparr> \<and>
   sent (client_connection (push_output (quit s argument))) =
     sent (client_connection s) @ [''OK! Goodbye! \<newline>''] \<and>
   (list_all (list_all (\<lambda>c. (of_char c :: nat) < 128)) peer \<and>
    loop_reaches (push_output (greet (connect p peer))) t \<and>
    \<not> finished t \<and> get_input t = Some t1 \<and> command (input_buffer t1) = ''quit'' \<longrightarrow>
      serve p peer =
        Some (t1\<lparr>finished := True, output_buffer := ''Goodbye!'', socket := Closed,
                 client_connection := (client_connection t1)
                   \<lparr>sent := sent (client_connection t1) @ [''OK! Goodbye! \<newline>''],
                    closed := True\<rparr>\<rparr>))"
proof -
  have a: "quit s argument = s\<lparr>finished := True, output_buffer := ''Goodbye!''\<rparr>"
    by (simp add: quit_def)
  have b: "sent (client_connection (push_output (quit s argument))) =
     sent (client_connection s) @ [''OK! Goodbye! \<newline>'']"
    by (rule quit_framed)
  have c: "serve p peer =
        Some (t1\<lparr>finished := True, output_buffer := ''Goodbye!'', socket := Closed,
                 client_connection := (client_connection t1)
                   \<lparr>sent := sent (client_connection t1) @ [''OK! Goodbye! \<newline>''],
                    closed := True\<rparr>\<rparr>)"
    if h: "loop_reaches (push_output (greet (connect p peer))) t" "\<not> finished t"
      "get_input t = Some t1" "command (input_buffer t1) = ''quit''"
  proof -
    have "serve_loop (push_output (greet (connect p peer))) = serve_loop t"
      using h(1) by (rule serve_loop_reaches)
    also have "\<dots> = serve_loop (push_output (route t1))"
      using h(2) h(3) by (rule serve_loop_step)
    also have "route t1 = quit t1 (action (input_buffer t1))"
      using h(4) by (rule route_quit)
    also have "serve_loop (push_output (quit t1 (action (input_buffer t1)))) =
        Some (push_output (quit t1 (action (input_buffer t1))))"
      by (rule serve_loop_finished) (simp add: push_output_fields quit_def)
    finally have "serve p peer =
        Some (close_all (push_output (quit t1 (action (input_buffer t1)))))"
      unfolding serve_def by simp
    then show ?thesis
      unfolding close_all_quit .
  qed
  from a b c show ?thesis by blast
qed

text \<open>
  A session in which the peer sends the lines \<^verbatim>\<open>say hi\<close>, \<^verbatim>\<open>quit\<close> and
  \<^verbatim>\<open>move north\<close>: the second pass through the loop reads the verb
  \<^verbatim>\<open>quit\<close>, and \<^verbatim>\<open>serve\<close> returns with three payloads sent, the third
  line left unread and both sockets closed.
\<close>

theorem quit_ends_session_witness:
  \<open>list_all (list_all (\<lambda>c. (of_char c :: nat) < 128)) [''say hi\<newline>'', ''quit\<newline>'', ''move north\<newline>''] \<and>
   serve 50000 [''say hi\<newline>'', ''quit\<newline>'', ''move north\<newline>''] =
     Some \<lparr>input_buffer = ''quit'', output_buffer = ''Goodbye!'', finished = True,
           socket = Closed,
           client_connection =
             \<lparr>incoming = [''move north\<newline>''],
              sent = [''OK! Welcome to '' @ game_name @ ''! '' @
                        format_optional (room_description 0) @ '' \<newline>'',
                      ''OK! You say, "hi" \<newline>'',
                      ''OK! Goodbye! \<newline>''],
              closed = True\<rparr>,
           port = 50000, room = 0\<rparr>\<close>
proof -
  let ?peer = "[''say hi\<newline>'', ''quit\<newline>'', ''move north\<newline>'']"
  let ?s0 = "push_output (greet (connect 50000 ?peer))"
  let ?s1 = "?s0\<lparr>client_connection := (client_connection ?s0)\<lparr>incoming := [''quit\<newline>'', ''move north\<newline>'']\<rparr>,
                input_buffer := ''say hi''\<rparr>"
  let ?t = "push_output (route ?s1)"
  let ?t1 = "?t\<lparr>client_connection := (client_connection ?t)\<lparr>incoming := [''move north\<newline>'']\<rparr>,
               input_buffer := ''quit''\<rparr>"
  have ascii: "list_all (list_all (\<lambda>c. (of_char c :: nat) < 128)) ?peer"
    by simp
  have strip1: "strip (''say hi'' @ [CHR 0x0A]) = ''say hi''"
    by (simp add: strip_def is_space_def)
  have strip2: "strip (''quit'' @ [CHR 0x0A]) = ''quit''"
    by (simp add: strip_def is_space_def)
  have "incoming (client_connection ?s0) = (''say hi'' @ [CHR 0x0A]) # [''quit\<newline>'', ''move north\<newline>'']"
    by (simp add: push_output_fields greet_def connect_def)
  then have "get_input ?s0 =
      Some (?s0\<lparr>client_connection := (client_connection ?s0)\<lparr>incoming := [''quit\<newline>'', ''move north\<newline>'']\<rparr>,
                input_buffer := strip (''say hi'' @ [CHR 0x0A])\<rparr>)"
    by (rule get_input_segment) simp_all
  then have g0: "get_input ?s0 = Some ?s1"
    unfolding strip1 .
  have n0: "\<not> finished ?s0"
    by (simp add: push_output_fields greet_def connect_def)
  have reach: "loop_reaches ?s0 ?t"
    using loop_reaches.entry n0 g0 by (rule loop_reaches.pass)
  have "command (input_buffer ?s1) = ''say''"
    by (simp add: command_say_hi)
  then have "functions_dict (command (input_buffer ?s1)) = Some say"
    by (simp add: functions_dict_def)
  then have r1: "route ?s1 = say ?s1 (action (input_buffer ?s1))"
    by (rule route_known)
  have act: "action (input_buffer ?s1) = ''hi''"
    by (simp add: action_def)
  have n1: "\<not> finished ?t"
    unfolding r1 by (simp add: push_output_fields say_def greet_def connect_def)
  have "incoming (client_connection ?t) = (''quit'' @ [CHR 0x0A]) # [''move north\<newline>'']"
    unfolding r1 by (simp add: push_output_fields say_def)
  then have "get_input ?t =
      Some (?t\<lparr>client_connection := (client_connection ?t)\<lparr>incoming := [''move north\<newline>'']\<rparr>,
               input_buffer := strip (''quit'' @ [CHR 0x0A])\<rparr>)"
    by (rule get_input_segment) simp_all
  then have g1: "get_input ?t = Some ?t1"
    unfolding strip2 .
  have verb: "command (input_buffer ?t1) = ''quit''"
    by (simp add: command_quit)
  from quit_ends_session [of _ _ ?peer 50000 ?t ?t1] ascii reach n1 g1 verb
  have "serve 50000 ?peer =
      Some (?t1\<lparr>finished := True, output_buffer := ''Goodbye!'', socket := Closed,
                 client_connection := (client_connection ?t1)
                   \<lparr>sent := sent (client_connection ?t1) @ [''OK! Goodbye! \<newline>''],
                    closed := True\<rparr>\<rparr>)"
    by blast
  then have c: \<open>serve 50000 ?peer =
     Some \<lparr>input_buffer = ''quit'', output_buffer = ''Goodbye!'', finished = True,
           socket = Closed,
           client_connection =
             \<lparr>incoming = [''move north\<newline>''],
              sent = [''OK! Welcome to '' @ game_name @ ''! '' @
                        format_optional (room_description 0) @ '' \<newline>'',
                      ''OK! You say, "hi" \<newline>'',
                      ''OK! Goodbye! \<newline>''],
              closed = True\<rparr>,
           port = 50000, room = 0\<rparr>\<close>
    unfolding r1 act
    by (simp add: push_output_def sendall_def say_def greet_def connect_def startswith_def)
  from ascii c show ?thesis by (intro conjI)
qed

subsection \<open>A peer that closes the stream in the middle of a line\<close>

text \<open>
  Claim C9 says that when the peer closes the stream before a line feed has
  been seen, the read fails, the session loop terminates and the sockets are
  released. In the source \<^verbatim>\<open>recv\<close> then returns the empty byte string, which
  \<^verbatim>\<open>get_input\<close> appends to the message before it calls \<^verbatim>\<open>recv\<close> again: the
  loop never ends. For a peer that sends \<^verbatim>\<open>mov\<close> and closes, \<^verbatim>\<open>get_input\<close>
  does not return, and neither does \<^verbatim>\<open>serve\<close>, so that nothing is closed.
\<close>

theorem get_input_never_returns_after_close:
  "get_input (push_output (greet (connect 50000 [''mov'']))) = None \<and>
   serve 50000 [''mov''] = None"
proof -
  have a: "get_input (push_output (greet (connect 50000 [''mov'']))) = None"
    by (rule get_input_None) (simp add: push_output_fields greet_def connect_def)
  have "\<not> finished (push_output (greet (connect 50000 [''mov''])))"
    by (simp add: push_output_fields greet_def connect_def)
  then have "serve_loop (push_output (greet (connect 50000 [''mov'']))) = None"
    using a by (rule serve_loop_None)
  then have b: "serve 50000 [''mov''] = None"
    unfolding serve_def by simp
  from a b show ?thesis by (intro conjI)
qed

end
